theory Spec2Isabelle
  imports Main
begin

section \<open>The login/logout service of app.py\<close>

text \<open>
  The module keeps two dictionaries: \<open>fake_users_db\<close>, written once at import and never
  assigned again, and \<open>active_tokens\<close>, which the handlers mutate. A handler is modelled
  as a function from the token table (and its inputs) to its outcome and the token table
  it leaves behind; a raised \<open>HTTPException\<close> is the \<open>Inl\<close> outcome. The two values a
  handler takes from its environment, the string drawn by \<open>secrets.token_urlsafe(32)\<close>
  and the instant read by \<open>datetime.utcnow()\<close>, are arguments of the model. Requests are
  served one after another.

  As the file stands, the call \<open>FastAPI(...)\<close> at its top has no comma between its
  first two keyword arguments; the handlers are modelled as they are written below it.
\<close>

subsection \<open>Data\<close>

text \<open>An instant, as \<open>datetime.utcnow()\<close> gives it: microseconds on the time line.\<close>

type_synonym datetime = int

text \<open>A value of \<open>fake_users_db\<close>: the dictionary with keys "username" and "password".\<close>

record user_entry =
  username :: string
  password :: string

text \<open>A value of \<open>active_tokens\<close>: the dictionary with keys "username" and "created_at".\<close>

record token_data =
  username :: string
  created_at :: datetime

text \<open>The pydantic models \<open>Token\<close> and \<open>User\<close>, and the body that logout returns.\<close>

record Token =
  access_token :: string
  token_type :: string

record User =
  username :: string

record logout_body =
  message :: string

datatype HTTPException = HTTPException (status_code: nat) (detail: string)

type_synonym token_table = "string \<rightharpoonup> token_data"

definition HTTP_401_UNAUTHORIZED :: nat where
  "HTTP_401_UNAUTHORIZED = 401"

definition fake_users_db :: "string \<rightharpoonup> user_entry" where
  "fake_users_db =
     [''alice'' \<mapsto> \<lparr>user_entry.username = ''alice'', password = ''wonderland''\<rparr>]"

subsection \<open>Handlers\<close>

text \<open>
  \<open>login\<close>: \<open>form_username\<close> and \<open>form_password\<close> are \<open>form_data.username\<close> and
  \<open>form_data.password\<close>; \<open>not user\<close> holds exactly when \<open>.get\<close> found nothing, since a
  stored entry is a non-empty dictionary. The assignment
  \<open>active_tokens[token] = ...\<close> is a plain dictionary store.
\<close>

definition login ::
  "token_table \<Rightarrow> string \<Rightarrow> string \<Rightarrow> string \<Rightarrow> datetime
     \<Rightarrow> (HTTPException + Token) \<times> token_table" where
  "login active_tokens form_username form_password token_urlsafe utcnow =
     (case fake_users_db form_username of
        None \<Rightarrow>
          (Inl (HTTPException HTTP_401_UNAUTHORIZED ''Incorrect username or password''),
           active_tokens)
      | Some user \<Rightarrow>
          if user_entry.password user \<noteq> form_password
          then (Inl (HTTPException HTTP_401_UNAUTHORIZED ''Incorrect username or password''),
                active_tokens)
          else (Inr \<lparr>access_token = token_urlsafe, token_type = ''bearer''\<rparr>,
                active_tokens(token_urlsafe \<mapsto>
                  \<lparr>token_data.username = user_entry.username user,
                   created_at = utcnow\<rparr>)))"

definition get_current_user ::
  "token_table \<Rightarrow> string \<Rightarrow> (HTTPException + User) \<times> token_table" where
  "get_current_user active_tokens token =
     (case active_tokens token of
        None \<Rightarrow>
          (Inl (HTTPException HTTP_401_UNAUTHORIZED ''Invalid or expired token''),
           active_tokens)
      | Some token_data \<Rightarrow>
          (Inr \<lparr>User.username = token_data.username token_data\<rparr>, active_tokens))"

definition logout ::
  "token_table \<Rightarrow> string \<Rightarrow> (HTTPException + logout_body) \<times> token_table" where
  "logout active_tokens token =
     (if token \<in> dom active_tokens
      then (Inr \<lparr>message = ''Successfully logged out.''\<rparr>, active_tokens(token := None))
      else (Inl (HTTPException HTTP_401_UNAUTHORIZED ''Invalid or expired token''),
            active_tokens))"

definition read_users_me :: "User \<Rightarrow> User" where
  "read_users_me current_user = current_user"

text \<open>
  \<open>GET /me\<close>: the framework first resolves the dependency \<open>get_current_user\<close> on the
  bearer token; if that raises, the request ends with the exception, otherwise
  \<open>read_users_me\<close> is called on its value. This is the operation the specification
  calls \<open>whoami\<close>.
\<close>

definition whoami ::
  "token_table \<Rightarrow> string \<Rightarrow> (HTTPException + User) \<times> token_table" where
  "whoami active_tokens token =
     (case get_current_user active_tokens token of
        (Inl e, active_tokens') \<Rightarrow> (Inl e, active_tokens')
      | (Inr current_user, active_tokens') \<Rightarrow>
          (Inr (read_users_me current_user), active_tokens'))"

subsection \<open>Sequences of requests\<close>

text \<open>
  A request to one of the three routes. A login request carries, after the two form
  fields, the string that \<open>secrets.token_urlsafe(32)\<close> yields while it is served and the
  instant \<open>datetime.utcnow()\<close> reads.
\<close>

datatype request =
    POST_login string string string datetime
  | POST_logout string
  | GET_me string

fun serve :: "token_table \<Rightarrow> request \<Rightarrow> token_table" where
  "serve s (POST_login u p tok now) = snd (login s u p tok now)"
| "serve s (POST_logout t) = snd (logout s t)"
| "serve s (GET_me t) = snd (whoami s t)"

fun run :: "token_table \<Rightarrow> request list \<Rightarrow> token_table" where
  "run s [] = s"
| "run s (r # rs) = run (serve s r) rs"

text \<open>
  The strings that serving a sequence of requests draws from the random source, in the
  order of the requests. \<open>login\<close> calls \<open>secrets.token_urlsafe(32)\<close> only after its credential test has
  passed; a login that raises draws nothing. The test reads \<open>fake_users_db\<close> alone, so
  it is the same in every token table.
\<close>

fun drawn :: "request list \<Rightarrow> string list" where
  "drawn [] = []"
| "drawn (POST_login u p tok now # rs) =
     (case fake_users_db u of
        None \<Rightarrow> drawn rs
      | Some user \<Rightarrow>
          if user_entry.password user \<noteq> p then drawn rs else tok # drawn rs)"
| "drawn (POST_logout t # rs) = drawn rs"
| "drawn (GET_me t # rs) = drawn rs"

text \<open>
  The tokens that the logins of a sequence return to their callers (the
  \<open>access_token\<close> of each successful response), starting from the table \<open>s\<close>.
\<close>

fun issued :: "token_table \<Rightarrow> request list \<Rightarrow> string list" where
  "issued s [] = []"
| "issued s (POST_login u p tok now # rs) =
     (case fst (login s u p tok now) of
        Inl e \<Rightarrow> issued (snd (login s u p tok now)) rs
      | Inr out \<Rightarrow> access_token out # issued (snd (login s u p tok now)) rs)"
| "issued s (POST_logout t # rs) = issued (snd (logout s t)) rs"
| "issued s (GET_me t # rs) = issued (snd (whoami s t)) rs"

text \<open>
  Every token in the table leads to a user name that is a key of \<open>fake_users_db\<close>.
\<close>

definition store_invariant :: "token_table \<Rightarrow> bool" where
  "store_invariant s = (\<forall>r \<in> ran s. token_data.username r \<in> dom fake_users_db)"

text \<open>
  The specification's \<open>expires_at\<close> (its section 4.3: \<open>created_at\<close> plus the time to
  live, 3600 seconds unless configured). The source stores no such field; the definition
  only serves to compare the handlers with the specification's words.
\<close>

definition spec_expires_at :: "token_data \<Rightarrow> datetime" where
  "spec_expires_at r = created_at r + 3600 * 1000000"

text \<open>
  A string that \<open>secrets.token_urlsafe(32)\<close> can yield: the 43 characters that encode
  32 zero bytes.
\<close>

definition zero_token :: string where
  "zero_token = ''AAAAAAAAAAAAAAAAAAAAAAAAAAAAAAAAAAAAAAAAAAA''"

section \<open>Basic facts\<close>

lemma login_registered:
  "login s ''alice'' ''wonderland'' tok now =
     (Inr \<lparr>access_token = tok, token_type = ''bearer''\<rparr>,
      s(tok \<mapsto> \<lparr>token_data.username = ''alice'', created_at = now\<rparr>))"
  by (simp add: login_def fake_users_db_def)

lemma login_rejected:
  assumes "u \<noteq> ''alice'' \<or> p \<noteq> ''wonderland''"
  shows "login s u p tok now =
     (Inl (HTTPException 401 ''Incorrect username or password''), s)"
  using assms by (auto simp: login_def fake_users_db_def HTTP_401_UNAUTHORIZED_def)

lemma whoami_eq:
  "whoami s t =
     (case s t of
        None \<Rightarrow> (Inl (HTTPException 401 ''Invalid or expired token''), s)
      | Some r \<Rightarrow> (Inr \<lparr>User.username = token_data.username r\<rparr>, s))"
  by (simp add: whoami_def get_current_user_def read_users_me_def HTTP_401_UNAUTHORIZED_def
      split: option.split)

lemma logout_eq:
  "logout s t =
     (if s t = None then (Inl (HTTPException 401 ''Invalid or expired token''), s)
      else (Inr \<lparr>message = ''Successfully logged out.''\<rparr>, s(t := None)))"
  by (auto simp: logout_def HTTP_401_UNAUTHORIZED_def dom_def)

lemma login_cases:
  "login s u p tok now =
     (if u = ''alice'' \<and> p = ''wonderland''
      then (Inr \<lparr>access_token = tok, token_type = ''bearer''\<rparr>,
            s(tok \<mapsto> \<lparr>token_data.username = ''alice'', created_at = now\<rparr>))
      else (Inl (HTTPException 401 ''Incorrect username or password''), s))"
  using login_registered login_rejected by auto

lemma drawn_login:
  "drawn (POST_login u p tok now # rs) =
     (if u = ''alice'' \<and> p = ''wonderland'' then tok # drawn rs else drawn rs)"
  by (auto simp: fake_users_db_def)

lemma issued_login:
  "issued s (POST_login u p tok now # rs) =
     (if u = ''alice'' \<and> p = ''wonderland''
      then tok # issued (s(tok \<mapsto> \<lparr>token_data.username = ''alice'', created_at = now\<rparr>)) rs
      else issued s rs)"
  by (simp add: login_cases)

lemma issued_eq_drawn: "issued s rs = drawn rs"
proof (induction rs arbitrary: s)
  case Nil
  then show ?case by simp
next
  case (Cons req rs)
  show ?case
  proof (cases req)
    case (POST_login u p tok now)
    then show ?thesis
      using Cons.IH by (simp only: drawn_login issued_login split: if_splits)
  next
    case (POST_logout t)
    then show ?thesis using Cons.IH by simp
  next
    case (GET_me t)
    then show ?thesis using Cons.IH by simp
  qed
qed

lemma serve_keeps_alice:
  assumes "s t = Some r" and "token_data.username r = ''alice''" and "req \<noteq> POST_logout t"
  shows "\<exists>r'. serve s req t = Some r' \<and> token_data.username r' = ''alice''"
  using assms by (cases req) (auto simp: login_cases logout_eq whoami_eq split: option.splits)

lemma run_keeps_alice:
  assumes "s t = Some r" and "token_data.username r = ''alice''" and "POST_logout t \<notin> set rs"
  shows "\<exists>r'. run s rs t = Some r' \<and> token_data.username r' = ''alice''"
  using assms
proof (induction rs arbitrary: s r)
  case Nil
  then show ?case by simp
next
  case (Cons req rs)
  from Cons.prems have "req \<noteq> POST_logout t" by auto
  with Cons.prems obtain r' where "serve s req t = Some r'" "token_data.username r' = ''alice''"
    using serve_keeps_alice by blast
  moreover from Cons.prems have "POST_logout t \<notin> set rs" by simp
  ultimately show ?case using Cons.IH by simp
qed

section \<open>Resolving an issued token\<close>

text \<open>
  C1: a successful login returns a token under which \<open>whoami\<close> answers with the user
  name that was authenticated, after any sequence of further requests that does not log
  that token out. The handlers never read the clock when they resolve a token, so no
  condition on the time is needed.
\<close>

theorem whoami_after_login:
  assumes "login s u p tok now = (Inr out, s1)"
      and "POST_logout (access_token out) \<notin> set rs"
  shows "fst (whoami (run s1 rs) (access_token out)) = Inr \<lparr>User.username = u\<rparr>"
proof -
  from assms(1) have u: "u = ''alice''" and out: "access_token out = tok"
    and s1: "s1 = s(tok \<mapsto> \<lparr>token_data.username = ''alice'', created_at = now\<rparr>)"
    by (auto simp: login_cases split: if_splits)
  from s1 have "s1 tok = Some \<lparr>token_data.username = ''alice'', created_at = now\<rparr>" by simp
  with assms(2) out obtain r' where "run s1 rs tok = Some r'" "token_data.username r' = ''alice''"
    using run_keeps_alice[of s1 tok _ rs] by auto
  then show ?thesis using u out by (simp add: whoami_eq)
qed

theorem whoami_after_login_witness:
  "login Map.empty ''alice'' ''wonderland'' zero_token 7 =
     (Inr \<lparr>access_token = zero_token, token_type = ''bearer''\<rparr>,
      [zero_token \<mapsto> \<lparr>token_data.username = ''alice'', created_at = 7\<rparr>])
   \<and> POST_logout zero_token \<notin> set [GET_me zero_token, POST_logout ''x'',
         POST_login ''alice'' ''wonderland'' zero_token 9]
   \<and> fst (whoami (run [zero_token \<mapsto> \<lparr>token_data.username = ''alice'', created_at = 7\<rparr>]
              [GET_me zero_token, POST_logout ''x'',
               POST_login ''alice'' ''wonderland'' zero_token 9]) zero_token)
       = Inr \<lparr>User.username = ''alice''\<rparr>"
proof -
  have h1: "login Map.empty ''alice'' ''wonderland'' zero_token 7 =
     (Inr \<lparr>access_token = zero_token, token_type = ''bearer''\<rparr>,
      [zero_token \<mapsto> \<lparr>token_data.username = ''alice'', created_at = 7\<rparr>])"
    by (simp add: login_def fake_users_db_def)
  have h2: "POST_logout (access_token \<lparr>access_token = zero_token, token_type = ''bearer''\<rparr>)
      \<notin> set [GET_me zero_token, POST_logout ''x'',
         POST_login ''alice'' ''wonderland'' zero_token 9]"
    by (simp add: zero_token_def)
  from whoami_after_login[OF h1 h2] h1 h2 show ?thesis by simp
qed

section \<open>Logging in\<close>

text \<open>
  C2, as the specification words it, fails: \<open>login\<close> hands back whatever string the
  random source yields and compares it with nothing, so two logins that draw the same
  string return the same token.
\<close>

theorem login_repeats_drawn_token:
  "fst (login Map.empty ''alice'' ''wonderland'' zero_token 0) =
     Inr \<lparr>access_token = zero_token, token_type = ''bearer''\<rparr>
   \<and> fst (login (snd (login Map.empty ''alice'' ''wonderland'' zero_token 0))
          ''alice'' ''wonderland'' zero_token 1) =
     Inr \<lparr>access_token = zero_token, token_type = ''bearer''\<rparr>
   \<and> issued Map.empty [POST_login ''alice'' ''wonderland'' zero_token 0] = [zero_token]
   \<and> fst (login (run Map.empty [POST_login ''alice'' ''wonderland'' zero_token 0])
          ''alice'' ''wonderland'' zero_token 1) =
     Inr \<lparr>access_token = zero_token, token_type = ''bearer''\<rparr>"
  by (simp add: login_registered)

text \<open>
  C2, amended: for a registered user name with its password, \<open>login\<close> succeeds in every
  token table, in particular in the one that any sequence \<open>rs\<close> of earlier requests
  leaves behind; it returns the drawn string unchanged as a bearer token and stores a
  record under it. The returned token differs from every token that an earlier login of
  \<open>rs\<close> returned exactly when the drawn string differs from every string drawn while
  \<open>rs\<close> was served.
\<close>

theorem login_returns_drawn_token:
  assumes "fake_users_db u = Some usr" and "user_entry.password usr = p"
  shows "login s u p tok now =
           (Inr \<lparr>access_token = tok, token_type = ''bearer''\<rparr>,
            s(tok \<mapsto> \<lparr>token_data.username = user_entry.username usr,
                         created_at = now\<rparr>))
       \<and> login (run s rs) u p tok now =
           (Inr \<lparr>access_token = tok, token_type = ''bearer''\<rparr>,
            (run s rs)(tok \<mapsto> \<lparr>token_data.username = user_entry.username usr,
                                  created_at = now\<rparr>))
       \<and> (tok \<in> set (issued s rs)) = (tok \<in> set (drawn rs))"
  using assms by (simp add: login_def issued_eq_drawn)

theorem login_returns_drawn_token_witness:
  "fake_users_db ''alice'' =
     Some \<lparr>user_entry.username = ''alice'', password = ''wonderland''\<rparr>
   \<and> login Map.empty ''alice'' ''wonderland'' zero_token 12 =
     (Inr \<lparr>access_token = zero_token, token_type = ''bearer''\<rparr>,
      [zero_token \<mapsto> \<lparr>token_data.username = ''alice'', created_at = 12\<rparr>])
   \<and> login (run Map.empty [POST_login ''alice'' ''wonderland'' ''B'' 3,
          POST_login ''bob'' ''wonderland'' zero_token 4])
        ''alice'' ''wonderland'' zero_token 12 =
     (Inr \<lparr>access_token = zero_token, token_type = ''bearer''\<rparr>,
      (run Map.empty [POST_login ''alice'' ''wonderland'' ''B'' 3,
          POST_login ''bob'' ''wonderland'' zero_token 4])
       (zero_token \<mapsto> \<lparr>token_data.username = ''alice'', created_at = 12\<rparr>))
   \<and> issued Map.empty [POST_login ''alice'' ''wonderland'' ''B'' 3,
          POST_login ''bob'' ''wonderland'' zero_token 4] = [''B'']
   \<and> drawn [POST_login ''alice'' ''wonderland'' ''B'' 3,
          POST_login ''bob'' ''wonderland'' zero_token 4] = [''B'']
   \<and> zero_token \<notin> set (issued Map.empty [POST_login ''alice'' ''wonderland'' ''B'' 3,
          POST_login ''bob'' ''wonderland'' zero_token 4])"
proof -
  have h: "fake_users_db ''alice'' =
     Some \<lparr>user_entry.username = ''alice'', password = ''wonderland''\<rparr>"
    by (simp add: fake_users_db_def)
  have p: "user_entry.password
      \<lparr>user_entry.username = ''alice'', password = ''wonderland''\<rparr> = ''wonderland''"
    by simp
  have d: "drawn [POST_login ''alice'' ''wonderland'' ''B'' 3,
          POST_login ''bob'' ''wonderland'' zero_token 4] = [''B'']"
    by (simp add: drawn_login del: drawn.simps(2))
  have i: "issued Map.empty [POST_login ''alice'' ''wonderland'' ''B'' 3,
          POST_login ''bob'' ''wonderland'' zero_token 4] = [''B'']"
    by (simp add: issued_login del: issued.simps(2))
  have z: "zero_token \<notin> set [''B'']"
    by (simp add: zero_token_def)
  note t = login_returns_drawn_token[OF h p, of Map.empty zero_token 12
      "[POST_login ''alice'' ''wonderland'' ''B'' 3,
        POST_login ''bob'' ''wonderland'' zero_token 4]"]
  have u: "user_entry.username
      \<lparr>user_entry.username = ''alice'', password = ''wonderland''\<rparr> = ''alice''"
    by simp
  from t h d i z show ?thesis unfolding u by (simp only: simp_thms)
qed

text \<open>
  C3: every login with an unknown user name or with a wrong password raises the
  exception of status 401 with the detail "Incorrect username or password", and any two
  such logins, whichever of the two cases each one is, raise equal exceptions.
\<close>

theorem login_invalid_credentials:
  assumes "fake_users_db u = None
         \<or> (\<exists>usr. fake_users_db u = Some usr \<and> user_entry.password usr \<noteq> p)"
      and "fake_users_db u' = None
         \<or> (\<exists>usr. fake_users_db u' = Some usr \<and> user_entry.password usr \<noteq> p')"
  shows "fst (login s u p tok now) =
           Inl (HTTPException 401 ''Incorrect username or password'')
       \<and> fst (login s' u' p' tok' now') = fst (login s u p tok now)"
  using assms by (auto simp: login_def HTTP_401_UNAUTHORIZED_def)

theorem login_invalid_credentials_witness:
  "fake_users_db ''bob'' = None
   \<and> fake_users_db ''alice'' =
       Some \<lparr>user_entry.username = ''alice'', password = ''wonderland''\<rparr>
   \<and> ''wonderland'' \<noteq> ''wrong''
   \<and> fst (login Map.empty ''bob'' ''wonderland'' zero_token 1) =
       Inl (HTTPException 401 ''Incorrect username or password'')
   \<and> fst (login [''B'' \<mapsto> \<lparr>token_data.username = ''alice'', created_at = 0\<rparr>]
         ''alice'' ''wrong'' zero_token 2) =
       fst (login Map.empty ''bob'' ''wonderland'' zero_token 1)"
proof -
  have h1: "fake_users_db ''bob'' = None"
    by (simp add: fake_users_db_def)
  have h2: "fake_users_db ''alice'' =
       Some \<lparr>user_entry.username = ''alice'', password = ''wonderland''\<rparr>"
    by (simp add: fake_users_db_def)
  have a: "fake_users_db ''bob'' = None
         \<or> (\<exists>usr. fake_users_db ''bob'' = Some usr
              \<and> user_entry.password usr \<noteq> ''wonderland'')"
    using h1 by simp
  have b: "fake_users_db ''alice'' = None
         \<or> (\<exists>usr. fake_users_db ''alice'' = Some usr \<and> user_entry.password usr \<noteq> ''wrong'')"
    using h2 by simp
  from login_invalid_credentials[OF a b, of Map.empty zero_token 1
      "[''B'' \<mapsto> \<lparr>token_data.username = ''alice'', created_at = 0\<rparr>]" zero_token 2] h1 h2
  show ?thesis by simp
qed

section \<open>Logging out\<close>

lemma serve_keeps_absent:
  assumes "s t = None" and "t \<notin> set (drawn [req])"
  shows "serve s req t = None"
proof (cases req)
  case (POST_login u p tok now)
  with assms show ?thesis
    by (simp add: drawn_login login_cases del: drawn.simps split: if_splits)
next
  case (POST_logout t')
  with assms show ?thesis by (simp add: logout_eq)
next
  case (GET_me t')
  with assms show ?thesis by (simp add: whoami_eq split: option.splits)
qed

lemma drawn_Cons: "set (drawn (req # rs)) = set (drawn [req]) \<union> set (drawn rs)"
  by (cases req) (simp_all add: drawn_login del: drawn.simps(2))

lemma run_keeps_absent:
  assumes "s t = None" and "t \<notin> set (drawn rs)"
  shows "run s rs t = None"
  using assms
proof (induction rs arbitrary: s)
  case Nil
  then show ?case by simp
next
  case (Cons req rs)
  from Cons.prems(2) have "t \<notin> set (drawn [req])" and "t \<notin> set (drawn rs)"
    using drawn_Cons[of req rs] by auto
  with Cons.prems(1) Cons.IH show ?case
    using serve_keeps_absent by simp
qed

text \<open>
  C4, as the claim words it, fails: a token is logged out, a later login draws the same
  string, and \<open>whoami\<close> on that token then answers with the user name.
\<close>

theorem whoami_after_logout_and_redraw:
  "fst (logout [zero_token \<mapsto> \<lparr>token_data.username = ''alice'', created_at = 3\<rparr>]
         zero_token) =
     Inr \<lparr>message = ''Successfully logged out.''\<rparr>
   \<and> fst (whoami
         (run (snd (logout
                 [zero_token \<mapsto> \<lparr>token_data.username = ''alice'', created_at = 3\<rparr>]
                 zero_token))
            [POST_login ''alice'' ''wonderland'' zero_token 9])
         zero_token) =
     Inr \<lparr>User.username = ''alice''\<rparr>"
  by (simp add: logout_eq login_registered whoami_eq)

text \<open>
  C4, amended: after a successful \<open>logout\<close> of a token, \<open>whoami\<close> on that token raises
  status 401 with the detail "Invalid or expired token", directly afterwards and after
  any further requests among which no successful login draws that very string again. A
  login that raises draws nothing and does not count.
\<close>

theorem whoami_after_logout:
  assumes "fst (logout s t) = Inr m" and "t \<notin> set (drawn rs)"
  shows "fst (whoami (run (snd (logout s t)) rs) t) =
           Inl (HTTPException 401 ''Invalid or expired token'')"
proof -
  from assms(1) have "snd (logout s t) t = None"
    by (simp add: logout_eq split: if_splits)
  with assms(2) have "run (snd (logout s t)) rs t = None"
    using run_keeps_absent by blast
  then show ?thesis by (simp add: whoami_eq)
qed

theorem whoami_after_logout_witness:
  "fst (logout [zero_token \<mapsto> \<lparr>token_data.username = ''alice'', created_at = 3\<rparr>] zero_token)
     = Inr \<lparr>message = ''Successfully logged out.''\<rparr>
   \<and> zero_token \<notin> set (drawn [GET_me zero_token,
        POST_login ''bob'' ''wonderland'' zero_token 4,
        POST_login ''alice'' ''wrong'' zero_token 5,
        POST_login ''alice'' ''wonderland'' ''B'' 6, POST_logout zero_token])
   \<and> fst (whoami (run (snd (logout
          [zero_token \<mapsto> \<lparr>token_data.username = ''alice'', created_at = 3\<rparr>] zero_token))
        [GET_me zero_token, POST_login ''bob'' ''wonderland'' zero_token 4,
         POST_login ''alice'' ''wrong'' zero_token 5,
         POST_login ''alice'' ''wonderland'' ''B'' 6, POST_logout zero_token]) zero_token)
     = Inl (HTTPException 401 ''Invalid or expired token'')"
proof -
  have h1: "fst (logout [zero_token \<mapsto> \<lparr>token_data.username = ''alice'', created_at = 3\<rparr>]
      zero_token) = Inr \<lparr>message = ''Successfully logged out.''\<rparr>"
    by (simp add: logout_def)
  have d: "drawn [GET_me zero_token,
        POST_login ''bob'' ''wonderland'' zero_token 4,
        POST_login ''alice'' ''wrong'' zero_token 5,
        POST_login ''alice'' ''wonderland'' ''B'' 6, POST_logout zero_token] = [''B'']"
    by (simp add: drawn_login del: drawn.simps(2))
  have h2: "zero_token \<notin> set (drawn [GET_me zero_token,
        POST_login ''bob'' ''wonderland'' zero_token 4,
        POST_login ''alice'' ''wrong'' zero_token 5,
        POST_login ''alice'' ''wonderland'' ''B'' 6, POST_logout zero_token])"
    unfolding d by (simp add: zero_token_def)
  from whoami_after_logout[OF h1 h2] h1 h2 show ?thesis by simp
qed

section \<open>Age of a session\<close>

text \<open>
  C5, as the specification words it, fails: a session created at instant 0 would, by the
  specification, expire one hour later, yet a day later \<open>whoami\<close> still answers with
  the user name and the record is still in the table. The handler has no clock among its
  inputs, so its answer is the same at every instant.
\<close>

theorem whoami_after_time_to_live:
  "snd (login Map.empty ''alice'' ''wonderland'' zero_token 0) =
     [zero_token \<mapsto> \<lparr>token_data.username = ''alice'', created_at = 0\<rparr>]
   \<and> spec_expires_at \<lparr>token_data.username = ''alice'', created_at = 0\<rparr> < 86400 * 1000000
   \<and> whoami [zero_token \<mapsto> \<lparr>token_data.username = ''alice'', created_at = 0\<rparr>] zero_token =
       (Inr \<lparr>User.username = ''alice''\<rparr>,
        [zero_token \<mapsto> \<lparr>token_data.username = ''alice'', created_at = 0\<rparr>])"
  by (simp add: login_registered spec_expires_at_def whoami_eq)

text \<open>
  C5, amended: a token that is in the table resolves to its user name whatever its
  \<open>created_at\<close> is, and the table is left as it was; \<open>whoami\<close> fails, with status 401
  and the detail "Invalid or expired token", when the token is not in the table, and
  leaves the table as it was then too.
\<close>

theorem whoami_ignores_age:
  "(s t = Some \<lparr>token_data.username = u, created_at = c\<rparr> \<longrightarrow>
      whoami s t = (Inr \<lparr>User.username = u\<rparr>, s))
   \<and> (s t = None \<longrightarrow>
      whoami s t = (Inl (HTTPException 401 ''Invalid or expired token''), s))"
  by (simp add: whoami_eq)

theorem whoami_ignores_age_witness:
  "[zero_token \<mapsto> \<lparr>token_data.username = ''alice'', created_at = - 5\<rparr>] zero_token =
      Some \<lparr>token_data.username = ''alice'', created_at = - 5\<rparr>
   \<and> whoami [zero_token \<mapsto> \<lparr>token_data.username = ''alice'', created_at = - 5\<rparr>] zero_token =
      (Inr \<lparr>User.username = ''alice''\<rparr>,
       [zero_token \<mapsto> \<lparr>token_data.username = ''alice'', created_at = - 5\<rparr>])
   \<and> (Map.empty :: token_table) zero_token = None
   \<and> whoami Map.empty zero_token =
      (Inl (HTTPException 401 ''Invalid or expired token''), Map.empty)"
  using whoami_ignores_age[of "[zero_token \<mapsto> \<lparr>token_data.username = ''alice'', created_at = - 5\<rparr>]"
      zero_token "''alice''" "- 5"]
    whoami_ignores_age[of Map.empty zero_token "''alice''" 0]
  by simp

section \<open>Revoking a token\<close>

text \<open>
  C6: \<open>logout\<close> of a token that is in the table succeeds and deletes exactly that key;
  \<open>logout\<close> of a token that is not in the table raises status 401 with the detail
  "Invalid or expired token" and leaves the table as it was.
\<close>

theorem logout_removes_or_rejects:
  "(t \<in> dom s \<longrightarrow>
      logout s t = (Inr \<lparr>message = ''Successfully logged out.''\<rparr>, s(t := None)))
   \<and> (t \<notin> dom s \<longrightarrow>
      logout s t = (Inl (HTTPException 401 ''Invalid or expired token''), s))"
  by (auto simp: logout_eq)

theorem logout_removes_or_rejects_witness:
  "zero_token \<in> dom [zero_token \<mapsto> \<lparr>token_data.username = ''alice'', created_at = 1\<rparr>]
   \<and> logout [zero_token \<mapsto> \<lparr>token_data.username = ''alice'', created_at = 1\<rparr>] zero_token =
       (Inr \<lparr>message = ''Successfully logged out.''\<rparr>, Map.empty)
   \<and> ''B'' \<notin> dom [zero_token \<mapsto> \<lparr>token_data.username = ''alice'', created_at = 1\<rparr>]
   \<and> logout [zero_token \<mapsto> \<lparr>token_data.username = ''alice'', created_at = 1\<rparr>] ''B'' =
       (Inl (HTTPException 401 ''Invalid or expired token''),
        [zero_token \<mapsto> \<lparr>token_data.username = ''alice'', created_at = 1\<rparr>])"
  using logout_removes_or_rejects[of zero_token
      "[zero_token \<mapsto> \<lparr>token_data.username = ''alice'', created_at = 1\<rparr>]"]
    logout_removes_or_rejects[of "''B''"
      "[zero_token \<mapsto> \<lparr>token_data.username = ''alice'', created_at = 1\<rparr>]"]
  by (simp add: zero_token_def)

section \<open>The tokens refer to stored users\<close>

lemma store_invariant_login:
  "store_invariant s \<Longrightarrow> store_invariant (snd (login s u p tok now))"
  unfolding store_invariant_def
  by (auto simp: login_cases fake_users_db_def ran_def split: if_splits)

lemma store_invariant_logout:
  "store_invariant s \<Longrightarrow> store_invariant (snd (logout s t))"
  unfolding store_invariant_def
  by (auto simp: logout_eq ran_def split: if_splits)

lemma store_invariant_whoami:
  "store_invariant s \<Longrightarrow> store_invariant (snd (whoami s t))"
  by (simp add: whoami_eq split: option.split)

lemma store_invariant_empty: "store_invariant Map.empty"
  by (simp add: store_invariant_def)

lemma store_invariant_run: "store_invariant s \<Longrightarrow> store_invariant (run s rs)"
proof (induction rs arbitrary: s)
  case Nil
  then show ?case by simp
next
  case (Cons req rs)
  have "store_invariant (serve s req)"
    using Cons.prems
    by (cases req) (simp_all add: store_invariant_login store_invariant_logout
        store_invariant_whoami)
  then show ?case using Cons.IH by simp
qed

text \<open>
  C7: if every record of the token table names a key of \<open>fake_users_db\<close>, then so does
  every record of the table after a login, after a logout, after a \<open>whoami\<close>, and after
  any sequence of requests. No handler assigns to \<open>fake_users_db\<close>.
\<close>

theorem store_invariant_preserved:
  assumes "store_invariant s"
  shows "store_invariant (snd (login s u p tok now))
       \<and> store_invariant (snd (logout s t))
       \<and> store_invariant (snd (whoami s t))
       \<and> store_invariant (run s rs)"
  using assms store_invariant_login store_invariant_logout store_invariant_whoami
    store_invariant_run by blast

theorem store_invariant_preserved_witness:
  "store_invariant [''B'' \<mapsto> \<lparr>token_data.username = ''alice'', created_at = 1\<rparr>]
   \<and> store_invariant (snd (login [''B'' \<mapsto> \<lparr>token_data.username = ''alice'', created_at = 1\<rparr>]
        ''alice'' ''wonderland'' zero_token 2))
   \<and> snd (login [''B'' \<mapsto> \<lparr>token_data.username = ''alice'', created_at = 1\<rparr>]
        ''alice'' ''wonderland'' zero_token 2) zero_token =
      Some \<lparr>token_data.username = ''alice'', created_at = 2\<rparr>
   \<and> store_invariant (snd (logout [''B'' \<mapsto> \<lparr>token_data.username = ''alice'', created_at = 1\<rparr>]
        ''B''))
   \<and> store_invariant (snd (whoami [''B'' \<mapsto> \<lparr>token_data.username = ''alice'', created_at = 1\<rparr>]
        ''B''))
   \<and> store_invariant (run [''B'' \<mapsto> \<lparr>token_data.username = ''alice'', created_at = 1\<rparr>]
        [POST_login ''alice'' ''wonderland'' zero_token 2, GET_me ''B'', POST_logout ''B''])"
proof -
  have h: "store_invariant [''B'' \<mapsto> \<lparr>token_data.username = ''alice'', created_at = 1\<rparr>]"
    by (simp add: store_invariant_def fake_users_db_def)
  from store_invariant_preserved[OF h, of "''alice''" "''wonderland''" zero_token 2 "''B''"
      "[POST_login ''alice'' ''wonderland'' zero_token 2, GET_me ''B'', POST_logout ''B'']"] h
  show ?thesis by (simp add: login_registered)
qed

section \<open>A drawn token that is already in the table\<close>

text \<open>
  C8, as the specification words it, fails: a login that draws a token already in the
  table returns that same token and replaces the record stored under it (here the one
  created at instant 0 by the one created at instant 5).
\<close>

theorem login_overwrites_record:
  "snd (login Map.empty ''alice'' ''wonderland'' zero_token 0) =
     [zero_token \<mapsto> \<lparr>token_data.username = ''alice'', created_at = 0\<rparr>]
   \<and> login [zero_token \<mapsto> \<lparr>token_data.username = ''alice'', created_at = 0\<rparr>]
        ''alice'' ''wonderland'' zero_token 5 =
     (Inr \<lparr>access_token = zero_token, token_type = ''bearer''\<rparr>,
      [zero_token \<mapsto> \<lparr>token_data.username = ''alice'', created_at = 5\<rparr>])
   \<and> \<lparr>token_data.username = ''alice'', created_at = 5\<rparr>
       \<noteq> \<lparr>token_data.username = ''alice'', created_at = 0\<rparr>"
  by (simp add: login_registered)

text \<open>
  C8, amended: a successful login that draws a token already in the table does not draw
  again; it returns the drawn token and stores the new record under it in place of the
  old one, all other keys keeping their records.
\<close>

theorem login_stores_unconditionally:
  assumes "s tok = Some old" and "fst (login s u p tok now) = Inr out"
  shows "access_token out = tok
       \<and> snd (login s u p tok now) =
           s(tok \<mapsto> \<lparr>token_data.username = u, created_at = now\<rparr>)"
  using assms(2) by (auto simp: login_cases split: if_splits)

theorem login_stores_unconditionally_witness:
  "[zero_token \<mapsto> \<lparr>token_data.username = ''alice'', created_at = 0\<rparr>] zero_token =
     Some \<lparr>token_data.username = ''alice'', created_at = 0\<rparr>
   \<and> fst (login [zero_token \<mapsto> \<lparr>token_data.username = ''alice'', created_at = 0\<rparr>]
        ''alice'' ''wonderland'' zero_token 5) =
     Inr \<lparr>access_token = zero_token, token_type = ''bearer''\<rparr>
   \<and> snd (login [zero_token \<mapsto> \<lparr>token_data.username = ''alice'', created_at = 0\<rparr>]
        ''alice'' ''wonderland'' zero_token 5) =
     [zero_token \<mapsto> \<lparr>token_data.username = ''alice'', created_at = 5\<rparr>]"
proof -
  have h1: "[zero_token \<mapsto> \<lparr>token_data.username = ''alice'', created_at = 0\<rparr>] zero_token =
     Some \<lparr>token_data.username = ''alice'', created_at = 0\<rparr>"
    by simp
  have h2: "fst (login [zero_token \<mapsto> \<lparr>token_data.username = ''alice'', created_at = 0\<rparr>]
        ''alice'' ''wonderland'' zero_token 5) =
     Inr \<lparr>access_token = zero_token, token_type = ''bearer''\<rparr>"
    by (simp add: login_def fake_users_db_def)
  from login_stores_unconditionally[OF h1 h2] h1 h2 show ?thesis by simp
qed

section \<open>Frame conditions\<close>

text \<open>
  C9: resolving a token, whether it succeeds or raises, leaves the token table exactly
  as it was, both in \<open>get_current_user\<close> and in the whole \<open>GET /me\<close> request.
\<close>

theorem whoami_read_only:
  "snd (get_current_user s t) = s \<and> snd (whoami s t) = s"
  by (simp add: whoami_def get_current_user_def split: option.split)

text \<open>
  C10: a login with an unknown user name or a wrong password raises and leaves the token
  table exactly as it was.
\<close>

theorem login_failure_keeps_table:
  assumes "fake_users_db u = None
         \<or> (\<exists>usr. fake_users_db u = Some usr \<and> user_entry.password usr \<noteq> p)"
  shows "(\<exists>e. fst (login s u p tok now) = Inl e) \<and> snd (login s u p tok now) = s"
  using assms by (auto simp: login_def)

theorem login_failure_keeps_table_witness:
  "fake_users_db ''bob'' = None
   \<and> snd (login [zero_token \<mapsto> \<lparr>token_data.username = ''alice'', created_at = 0\<rparr>]
        ''bob'' ''wonderland'' ''B'' 1) =
     [zero_token \<mapsto> \<lparr>token_data.username = ''alice'', created_at = 0\<rparr>]
   \<and> fake_users_db ''alice'' =
       Some \<lparr>user_entry.username = ''alice'', password = ''wonderland''\<rparr>
   \<and> snd (login [zero_token \<mapsto> \<lparr>token_data.username = ''alice'', created_at = 0\<rparr>]
        ''alice'' ''Wonderland'' zero_token 1) =
     [zero_token \<mapsto> \<lparr>token_data.username = ''alice'', created_at = 0\<rparr>]"
proof -
  have h1: "fake_users_db ''bob'' = None"
    by (simp add: fake_users_db_def)
  have h2: "fake_users_db ''alice'' =
       Some \<lparr>user_entry.username = ''alice'', password = ''wonderland''\<rparr>"
    by (simp add: fake_users_db_def)
  have a: "fake_users_db ''bob'' = None
         \<or> (\<exists>usr. fake_users_db ''bob'' = Some usr \<and> user_entry.password usr \<noteq> ''wonderland'')"
    using h1 by simp
  have b: "fake_users_db ''alice'' = None
         \<or> (\<exists>usr. fake_users_db ''alice'' = Some usr \<and> user_entry.password usr \<noteq> ''Wonderland'')"
    using h2 by simp
  from login_failure_keeps_table[OF a] login_failure_keeps_table[OF b] h1 h2
  show ?thesis by simp
qed

end
